theory Spec2Isabelle
  imports Complex_Main
begin

section \<open>Python values, exceptions and outcomes\<close>

text \<open>
  The handler of \<^verbatim>\<open>handler.py\<close> receives a job decoded from JSON. A JSON value is a
  \<open>pyval\<close>; a dictionary is an association list looked up with \<open>map_of\<close>. Characters
  are code points below 256. Floats are carried as reals: the handler only passes them
  on, so rounding is not modelled.
\<close>

type_synonym bytes = "nat list"

datatype pyval =
    PNone
  | PBool bool
  | PInt int
  | PFloat real
  | PStr string
  | PList "pyval list"
  | PDict "(string \<times> pyval) list"

text \<open>Exceptions carry the text that \<^verbatim>\<open>str(e)\<close> gives. All of them derive from
  \<^verbatim>\<open>Exception\<close>, so an \<^verbatim>\<open>except Exception\<close> clause catches each one.
  \<open>LibraryError\<close> stands for whatever an external library raises.\<close>

datatype exn =
    AttributeError string
  | TypeError string
  | ValueError string
  | OverflowError string
  | ZeroDivisionError string
  | IndexError string
  | FileNotFoundError string
  | OSError string
  | RuntimeError string
  | LibraryError string

fun str_exn :: "exn \<Rightarrow> string" where
  "str_exn (AttributeError m) = m"
| "str_exn (TypeError m) = m"
| "str_exn (ValueError m) = m"
| "str_exn (OverflowError m) = m"
| "str_exn (ZeroDivisionError m) = m"
| "str_exn (IndexError m) = m"
| "str_exn (FileNotFoundError m) = m"
| "str_exn (OSError m) = m"
| "str_exn (RuntimeError m) = m"
| "str_exn (LibraryError m) = m"

type_synonym response = "(string \<times> pyval) list"

text \<open>A stage of the handler either lets an exception escape, makes the handler return
  a response at once, or hands a value to the next stage.\<close>

datatype 'a step = Raise exn | Return response | Next 'a

section \<open>The external world\<close>

text \<open>The waveform returned by the model: its tensor shape and its samples.\<close>

record wav =
  shape :: "nat list"
  samples :: "int list"

datatype model = ChatterboxTTS (sr: nat)

text \<open>
  Everything the module reaches outside itself is a field of \<open>env\<close>: the process
  environment, the libraries (\<^verbatim>\<open>requests\<close>, \<^verbatim>\<open>base64\<close>, \<^verbatim>\<open>torchaudio\<close>,
  \<^verbatim>\<open>boto3\<close>, \<^verbatim>\<open>ffmpeg\<close>, the model) and the operating system's answers to
  opening and removing a file. A call that can raise returns \<open>Inl\<close> of the exception
  (or \<open>Some\<close> of it, when the call returns nothing).
\<close>

record env =
  cuda_is_available :: bool
  getenv :: "string \<Rightarrow> string option"
  makedirs :: "string \<Rightarrow> exn option"
  boto3_client :: "string \<Rightarrow> string \<Rightarrow> string \<Rightarrow> exn option"
  from_pretrained :: "exn + model"
  uuid4 :: string
  str_builtin :: "pyval \<Rightarrow> string"
  float_of_str :: "string \<Rightarrow> real option"
  requests_get :: "string \<Rightarrow> exn + bytes"
  b64decode :: "string \<Rightarrow> exn + bytes"
  b64encode :: "bytes \<Rightarrow> string"
  open_wb :: "string \<Rightarrow> exn option"
  remove_error :: "string \<Rightarrow> exn option"
  generate :: "(string \<Rightarrow> bytes option) \<Rightarrow> string \<Rightarrow> string option \<Rightarrow> real \<Rightarrow> real \<Rightarrow> exn + wav"
  ta_save :: "string \<Rightarrow> wav \<Rightarrow> nat \<Rightarrow> exn + bytes"
  ffmpeg :: "bytes \<Rightarrow> string \<Rightarrow> exn + bytes"
  put_object :: "string \<Rightarrow> string \<Rightarrow> bytes \<Rightarrow> string \<Rightarrow> exn option"

text \<open>The module-level globals the handler reads.\<close>

record globals =
  r2_client :: bool
  R2_BUCKET :: string
  CDN_URL :: string
  DEVICE :: string
  MODEL :: "model option"
  SAMPLE_RATE :: nat

text \<open>
  The filesystem (regular files only, keyed by the path string as the code writes it)
  and the record of the external calls made so far. Logging is not recorded.
\<close>

datatype event =
    HttpGet string bool
  | B64Decode string bool
  | FileWrite string
  | FileRemove string
  | Generate "string option" bool
  | TaSave string bool
  | Ffmpeg string string bool
  | PutObject string bool

record state =
  files :: "string \<Rightarrow> bytes option"
  trace :: "event list"

section \<open>Builtins\<close>

definition INPUT_DIR :: string where
  "INPUT_DIR = ''/app/input''"

definition OUTPUT_DIR :: string where
  "OUTPUT_DIR = ''/app/output''"

text \<open>\<^verbatim>\<open>posixpath.join\<close> of two components.\<close>

definition os_path_join :: "string \<Rightarrow> string \<Rightarrow> string" where
  "os_path_join a b =
     (if b \<noteq> [] \<and> hd b = CHR ''/'' then b
      else if a = [] \<or> last a = CHR ''/'' then a @ b
      else a @ ''/'' @ b)"

definition startswith :: "string \<Rightarrow> string \<Rightarrow> bool" where
  "startswith s p = (take (length p) s = p)"

text \<open>\<^verbatim>\<open>s.startswith(("http://", "https://"))\<close>\<close>

definition is_url :: "string \<Rightarrow> bool" where
  "is_url s = (startswith s ''http://'' \<or> startswith s ''https://'')"

text \<open>The characters below 256 for which \<^verbatim>\<open>str.isspace\<close> holds.\<close>

definition is_space :: "char \<Rightarrow> bool" where
  "is_space c = (c \<in> set [CHR 0x09, CHR 0x0A, CHR 0x0B, CHR 0x0C, CHR 0x0D,
     CHR 0x1C, CHR 0x1D, CHR 0x1E, CHR 0x1F, CHR 0x20, CHR 0x85, CHR 0xA0])"

definition strip :: "string \<Rightarrow> string" where
  "strip s = rev (dropWhile is_space (rev (dropWhile is_space s)))"

text \<open>\<^verbatim>\<open>str.lower\<close> on code points below 256: A-Z and the Latin-1 capitals.\<close>

definition lower_char :: "char \<Rightarrow> char" where
  "lower_char c =
     (let n = (of_char c :: nat)
      in if (65 \<le> n \<and> n \<le> 90) \<or> (192 \<le> n \<and> n \<le> 222 \<and> n \<noteq> 215)
         then char_of (n + 32) else c)"

definition lower :: "string \<Rightarrow> string" where
  "lower s = map lower_char s"

text \<open>Method calls on a value that may not be a string or a dictionary.\<close>

fun py_strip :: "pyval \<Rightarrow> exn + string" where
  "py_strip (PStr s) = Inr (strip s)"
| "py_strip v = Inl (AttributeError ''object has no attribute strip'')"

fun py_lower :: "pyval \<Rightarrow> exn + string" where
  "py_lower (PStr s) = Inr (lower s)"
| "py_lower v = Inl (AttributeError ''object has no attribute lower'')"

text \<open>\<^verbatim>\<open>d.get(k, dflt)\<close> on a dictionary, and on a value that may not be one.\<close>

definition dict_get :: "(string \<times> pyval) list \<Rightarrow> string \<Rightarrow> pyval \<Rightarrow> pyval" where
  "dict_get d k dflt = (case map_of d k of None \<Rightarrow> dflt | Some v \<Rightarrow> v)"

fun py_get :: "pyval \<Rightarrow> string \<Rightarrow> pyval \<Rightarrow> exn + pyval" where
  "py_get (PDict d) k dflt = Inr (dict_get d k dflt)"
| "py_get v k dflt = Inl (AttributeError ''object has no attribute get'')"

text \<open>\<^verbatim>\<open>float(v)\<close>: an int beyond the double range overflows, a string is parsed
  (by the environment's parser), \<^verbatim>\<open>None\<close>, lists and dictionaries are refused.\<close>

fun py_float :: "env \<Rightarrow> pyval \<Rightarrow> exn + real" where
  "py_float e (PFloat r) = Inr r"
| "py_float e (PInt i) =
     (if \<bar>i\<bar> \<ge> 2 ^ 1024 - 2 ^ 970 then Inl (OverflowError ''int too large to convert to float'')
      else Inr (real_of_int i))"
| "py_float e (PBool b) = Inr (if b then 1 else 0)"
| "py_float e (PStr s) =
     (case float_of_str e s of
        None \<Rightarrow> Inl (ValueError ''could not convert string to float'')
      | Some r \<Rightarrow> Inr r)"
| "py_float e v = Inl (TypeError ''float() argument must be a string or a real number'')"

fun py_truthy :: "pyval \<Rightarrow> bool" where
  "py_truthy PNone = False"
| "py_truthy (PBool b) = b"
| "py_truthy (PInt i) = (i \<noteq> 0)"
| "py_truthy (PFloat r) = (r \<noteq> 0)"
| "py_truthy (PStr s) = (s \<noteq> [])"
| "py_truthy (PList l) = (l \<noteq> [])"
| "py_truthy (PDict d) = (d \<noteq> [])"

text \<open>The text an f-string puts for a value: a string as it is, anything else through
  \<^verbatim>\<open>str()\<close>.\<close>

fun format_str :: "env \<Rightarrow> pyval \<Rightarrow> string" where
  "format_str e (PStr s) = s"
| "format_str e v = str_builtin e v"

section \<open>Module start\<close>

text \<open>The client of the remote store exists only when the three settings are all set
  and non-empty and \<^verbatim>\<open>boto3.client\<close> does not raise.\<close>

definition init_r2_client :: "env \<Rightarrow> bool" where
  "init_r2_client e =
     (case (getenv e ''R2_ENDPOINT'', getenv e ''R2_ACCESS_KEY_ID'',
            getenv e ''R2_SECRET_ACCESS_KEY'') of
        (Some ep, Some k, Some sk) \<Rightarrow>
          (if ep \<noteq> [] \<and> k \<noteq> [] \<and> sk \<noteq> []
           then (case boto3_client e ep k sk of None \<Rightarrow> True | Some x \<Rightarrow> False)
           else False)
      | _ \<Rightarrow> False)"

definition check_gpu :: "env \<Rightarrow> exn + string" where
  "check_gpu e =
     (if \<not> cuda_is_available e
      then Inl (RuntimeError ''CUDA is required but not available. This handler requires a GPU.'')
      else Inr ''cuda'')"

text \<open>The module body up to the definition of the handler: \<open>Inl\<close> when the import of
  the module fails, so that the process does not start.\<close>

definition startup :: "env \<Rightarrow> exn + globals" where
  "startup e =
     (let bucket = (case getenv e ''R2_BUCKET'' of None \<Rightarrow> ''cdn'' | Some b \<Rightarrow> b);
          cdn = (case getenv e ''CDN_URL'' of None \<Rightarrow> ''https://cdn.example.com'' | Some u \<Rightarrow> u);
          client = init_r2_client e
      in case makedirs e INPUT_DIR of Some x \<Rightarrow> Inl x | None \<Rightarrow>
         (case makedirs e OUTPUT_DIR of Some x \<Rightarrow> Inl x | None \<Rightarrow>
         (case check_gpu e of Inl x \<Rightarrow> Inl x | Inr device \<Rightarrow>
         (case from_pretrained e of
            Inl x \<Rightarrow>
              Inr \<lparr>r2_client = client, R2_BUCKET = bucket, CDN_URL = cdn, DEVICE = device,
                   MODEL = None, SAMPLE_RATE = 24000\<rparr>
          | Inr m \<Rightarrow>
              Inr \<lparr>r2_client = client, R2_BUCKET = bucket, CDN_URL = cdn, DEVICE = device,
                   MODEL = Some m, SAMPLE_RATE = sr m\<rparr>))))"

section \<open>Files\<close>

text \<open>\<^verbatim>\<open>with open(path, 'wb') as f: f.write(content)\<close>\<close>

definition write_file :: "env \<Rightarrow> string \<Rightarrow> bytes \<Rightarrow> state \<Rightarrow> (exn + unit) \<times> state" where
  "write_file e path content s =
     (case open_wb e path of
        Some x \<Rightarrow> (Inl x, s)
      | None \<Rightarrow>
          (Inr (), s\<lparr>files := (files s)(path \<mapsto> content), trace := trace s @ [FileWrite path]\<rparr>))"

text \<open>\<^verbatim>\<open>with open(path, 'rb') as f: f.read()\<close>\<close>

definition read_file :: "string \<Rightarrow> state \<Rightarrow> exn + bytes" where
  "read_file path s =
     (case files s path of
        None \<Rightarrow> Inl (FileNotFoundError ''No such file or directory'')
      | Some b \<Rightarrow> Inr b)"

definition os_path_exists :: "state \<Rightarrow> string \<Rightarrow> bool" where
  "os_path_exists s path = (files s path \<noteq> None)"

text \<open>\<^verbatim>\<open>os.remove(path)\<close>: raises when there is no such file, or when the operating
  system refuses.\<close>

definition os_remove :: "env \<Rightarrow> string \<Rightarrow> state \<Rightarrow> (exn + unit) \<times> state" where
  "os_remove e path s =
     (if files s path = None then (Inl (FileNotFoundError ''No such file or directory''), s)
      else case remove_error e path of
             Some x \<Rightarrow> (Inl x, s)
           | None \<Rightarrow>
               (Inr (), s\<lparr>files := (files s)(path := None), trace := trace s @ [FileRemove path]\<rparr>))"

section \<open>Upload and download\<close>

definition upload_to_r2 :: "env \<Rightarrow> globals \<Rightarrow> string \<Rightarrow> string \<Rightarrow> string \<Rightarrow> state \<Rightarrow> string option \<times> state" where
  "upload_to_r2 e g file_path job_id file_ext s =
     (if \<not> r2_client g then (None, s)
      else
        (let file_name = ''tts/'' @ job_id @ ''.'' @ file_ext;
             content_type = (if file_ext = ''wav'' then ''audio/wav'' else ''audio/mpeg'')
         in case read_file file_path s of
              Inl x \<Rightarrow> (None, s)
            | Inr f \<Rightarrow>
                (case put_object e (R2_BUCKET g) file_name f content_type of
                   Some x \<Rightarrow> (None, s\<lparr>trace := trace s @ [PutObject file_name False]\<rparr>)
                 | None \<Rightarrow>
                     (Some (CDN_URL g @ ''/'' @ file_name),
                      s\<lparr>trace := trace s @ [PutObject file_name True]\<rparr>))))"

text \<open>\<open>requests_get\<close> stands for \<^verbatim>\<open>requests.get(url, timeout=30)\<close> followed by
  \<^verbatim>\<open>raise_for_status()\<close> and the reading of the content.\<close>

definition download_audio :: "env \<Rightarrow> string \<Rightarrow> string \<Rightarrow> state \<Rightarrow> (exn + string) \<times> state" where
  "download_audio e url save_path s =
     (if \<not> is_url url then (Inl (ValueError ''Invalid URL''), s)
      else case requests_get e url of
             Inl x \<Rightarrow> (Inl x, s\<lparr>trace := trace s @ [HttpGet url False]\<rparr>)
           | Inr content \<Rightarrow>
               (case write_file e save_path content (s\<lparr>trace := trace s @ [HttpGet url True]\<rparr>) of
                  (Inl x, s1) \<Rightarrow> (Inl x, s1)
                | (Inr u, s1) \<Rightarrow> (Inr save_path, s1)))"

section \<open>The handler\<close>

record params =
  p_text :: string
  exaggeration :: real
  cfg_weight :: real
  output_format :: string
  return_base64 :: pyval

definition error_response :: "string \<Rightarrow> response" where
  "error_response msg = [(''error'', PStr msg)]"

text \<open>Lines 170 to 181: the parameters are read in this order, and the first call that
  raises ends the handler with that exception.\<close>

definition extract_parameters :: "env \<Rightarrow> pyval \<Rightarrow> params step" where
  "extract_parameters e job_input =
     (case py_get job_input ''text'' (PStr []) of Inl x \<Rightarrow> Raise x | Inr tv \<Rightarrow>
      (case py_strip tv of Inl x \<Rightarrow> Raise x | Inr txt \<Rightarrow>
      (if txt = [] then Return (error_response ''Missing required parameter: text'') else
      (case py_get job_input ''exaggeration'' (PFloat 0.5) of Inl x \<Rightarrow> Raise x | Inr ev \<Rightarrow>
      (case py_float e ev of Inl x \<Rightarrow> Raise x | Inr ex \<Rightarrow>
      (case py_get job_input ''cfg_weight'' (PFloat 0.5) of Inl x \<Rightarrow> Raise x | Inr cv \<Rightarrow>
      (case py_float e cv of Inl x \<Rightarrow> Raise x | Inr cfg \<Rightarrow>
      (case py_get job_input ''output_format'' (PStr ''wav'') of Inl x \<Rightarrow> Raise x | Inr fv \<Rightarrow>
      (case py_lower fv of Inl x \<Rightarrow> Raise x | Inr fmt \<Rightarrow>
      (case py_get job_input ''return_base64'' (PBool False) of Inl x \<Rightarrow> Raise x | Inr rb \<Rightarrow>
         Next \<lparr>p_text = txt, exaggeration = ex, cfg_weight = cfg,
               output_format = (if fmt \<notin> set [''wav'', ''mp3''] then ''wav'' else fmt),
               return_base64 = rb\<rparr>))))))))))"

text \<open>Lines 194 to 217. The second component is the variable \<^verbatim>\<open>temp_audio_file\<close> as
  it stands when the stage is left; the \<^verbatim>\<open>finally\<close> block reads it. The input is a
  dictionary here, since \<^verbatim>\<open>job_input.get\<close> has returned before.\<close>

definition resolve_audio_prompt :: "env \<Rightarrow> pyval \<Rightarrow> string \<Rightarrow> state \<Rightarrow> string option step \<times> string option \<times> state" where
  "resolve_audio_prompt e job_input job_id s =
     (case job_input of
        PDict d \<Rightarrow>
          (case map_of d ''audio_prompt'' of
             None \<Rightarrow> (Next None, None, s)
           | Some v \<Rightarrow>
               (case py_strip v of
                  Inl x \<Rightarrow> (Raise x, None, s)
                | Inr audio_prompt_value \<Rightarrow>
                    if is_url audio_prompt_value then
                      (let temp_audio_file = os_path_join INPUT_DIR (job_id @ ''_prompt.wav'')
                       in case download_audio e audio_prompt_value temp_audio_file s of
                            (Inl x, s1) \<Rightarrow>
                              (Return (error_response (''Failed to download audio prompt: '' @ str_exn x)),
                               Some temp_audio_file, s1)
                          | (Inr path, s1) \<Rightarrow> (Next (Some temp_audio_file), Some temp_audio_file, s1))
                    else
                      (case b64decode e audio_prompt_value of
                         Inl x \<Rightarrow>
                           (Return (error_response (''Invalid base64 audio_prompt: '' @ str_exn x)),
                            None, s\<lparr>trace := trace s @ [B64Decode audio_prompt_value False]\<rparr>)
                       | Inr audio_bytes \<Rightarrow>
                           (let temp_audio_file = os_path_join INPUT_DIR (job_id @ ''_prompt.wav'')
                            in case write_file e temp_audio_file audio_bytes
                                      (s\<lparr>trace := trace s @ [B64Decode audio_prompt_value True]\<rparr>) of
                                 (Inl x, s1) \<Rightarrow>
                                   (Return (error_response (''Invalid base64 audio_prompt: '' @ str_exn x)),
                                    Some temp_audio_file, s1)
                               | (Inr u, s1) \<Rightarrow>
                                   (Next (Some temp_audio_file), Some temp_audio_file, s1)))))
      | _ \<Rightarrow> (Raise (TypeError ''argument is not a dictionary''), None, s))"

text \<open>\<^verbatim>\<open>wav.shape[-1] / SAMPLE_RATE\<close>\<close>

definition duration_of :: "globals \<Rightarrow> wav \<Rightarrow> exn + real" where
  "duration_of g w =
     (if shape w = [] then Inl (IndexError ''tuple index out of range'')
      else if SAMPLE_RATE g = 0 then Inl (ZeroDivisionError ''division by zero'')
      else Inr (real (last (shape w)) / real (SAMPLE_RATE g)))"

text \<open>Lines 224 to 243: the call of the model and the log line after it stand in one
  \<^verbatim>\<open>try\<close> block.\<close>

definition generate_speech :: "env \<Rightarrow> globals \<Rightarrow> params \<Rightarrow> string option \<Rightarrow> state \<Rightarrow> wav step \<times> state" where
  "generate_speech e g p audio_prompt_path s =
     (let prompt = (case audio_prompt_path of
                      None \<Rightarrow> None
                    | Some path \<Rightarrow> if path \<noteq> [] then Some path else None)
      in case generate e (files s) (p_text p) prompt (exaggeration p) (cfg_weight p) of
           Inl x \<Rightarrow>
             (Return (error_response (''TTS generation failed: '' @ str_exn x)),
              s\<lparr>trace := trace s @ [Generate prompt False]\<rparr>)
         | Inr w \<Rightarrow>
             (case duration_of g w of
                Inl x \<Rightarrow>
                  (Return (error_response (''TTS generation failed: '' @ str_exn x)),
                   s\<lparr>trace := trace s @ [Generate prompt True]\<rparr>)
              | Inr d \<Rightarrow> (Next w, s\<lparr>trace := trace s @ [Generate prompt True]\<rparr>)))"

text \<open>\<^verbatim>\<open>ta.save(path, wav, SAMPLE_RATE)\<close>\<close>

definition ta_save_to :: "env \<Rightarrow> globals \<Rightarrow> string \<Rightarrow> wav \<Rightarrow> state \<Rightarrow> (exn + unit) \<times> state" where
  "ta_save_to e g path w s =
     (case ta_save e path w (SAMPLE_RATE g) of
        Inl x \<Rightarrow> (Inl x, s\<lparr>trace := trace s @ [TaSave path False]\<rparr>)
      | Inr b \<Rightarrow>
          (Inr (), s\<lparr>files := (files s)(path \<mapsto> b), trace := trace s @ [TaSave path True]\<rparr>))"

text \<open>\<^verbatim>\<open>subprocess.run(["ffmpeg", "-y", "-i", src, ..., dst], check=True)\<close>\<close>

definition run_ffmpeg :: "env \<Rightarrow> string \<Rightarrow> string \<Rightarrow> state \<Rightarrow> (exn + unit) \<times> state" where
  "run_ffmpeg e src dst s =
     (case files s src of
        None \<Rightarrow>
          (Inl (LibraryError ''ffmpeg returned non-zero exit status''),
           s\<lparr>trace := trace s @ [Ffmpeg src dst False]\<rparr>)
      | Some b \<Rightarrow>
          (case ffmpeg e b dst of
             Inl x \<Rightarrow> (Inl x, s\<lparr>trace := trace s @ [Ffmpeg src dst False]\<rparr>)
           | Inr mp3 \<Rightarrow>
               (Inr (), s\<lparr>files := (files s)(dst \<mapsto> mp3),
                          trace := trace s @ [Ffmpeg src dst True]\<rparr>)))"

text \<open>Lines 248 to 271.\<close>

definition save_audio :: "env \<Rightarrow> globals \<Rightarrow> string \<Rightarrow> params \<Rightarrow> wav \<Rightarrow> state \<Rightarrow> string step \<times> state" where
  "save_audio e g job_id p w s =
     (let output_path = os_path_join OUTPUT_DIR (job_id @ ''.'' @ output_format p)
      in if output_format p = ''wav'' then
           (case ta_save_to e g output_path w s of
              (Inl x, s1) \<Rightarrow> (Return (error_response (''Failed to save audio: '' @ str_exn x)), s1)
            | (Inr u, s1) \<Rightarrow> (Next output_path, s1))
         else
           (let temp_wav = os_path_join OUTPUT_DIR (job_id @ ''_temp.wav'')
            in case ta_save_to e g temp_wav w s of
                 (Inl x, s1) \<Rightarrow> (Return (error_response (''Failed to save audio: '' @ str_exn x)), s1)
               | (Inr u, s1) \<Rightarrow>
                   (case run_ffmpeg e temp_wav output_path s1 of
                      (Inl x, s2) \<Rightarrow>
                        (Return (error_response (''Failed to save audio: '' @ str_exn x)), s2)
                    | (Inr u, s2) \<Rightarrow>
                        (case os_remove e temp_wav s2 of
                           (Inl x, s3) \<Rightarrow>
                             (Return (error_response (''Failed to save audio: '' @ str_exn x)), s3)
                         | (Inr u, s3) \<Rightarrow> (Next output_path, s3)))))"

text \<open>Lines 276 to 305. The removal of the output file is wrapped in a bare
  \<^verbatim>\<open>except: pass\<close>, so its outcome is dropped.\<close>

definition publish :: "env \<Rightarrow> globals \<Rightarrow> string \<Rightarrow> params \<Rightarrow> wav \<Rightarrow> string \<Rightarrow> state \<Rightarrow> (exn + response) \<times> state" where
  "publish e g job_id p w output_path s =
     (case duration_of g w of
        Inl x \<Rightarrow> (Inl x, s)
      | Inr d \<Rightarrow>
          (let result = [(''duration'', PFloat d),
                         (''sample_rate'', PInt (int (SAMPLE_RATE g))),
                         (''format'', PStr (output_format p))];
               (public_url, s1) =
                  (if r2_client g \<and> \<not> py_truthy (return_base64 p)
                   then upload_to_r2 e g output_path job_id (output_format p) s
                   else (None, s))
           in if public_url \<noteq> None \<and> public_url \<noteq> Some []
              then (Inr (result @ [(''audio_url'', PStr (the public_url))]),
                    snd (os_remove e output_path s1))
              else
                (case read_file output_path s1 of
                   Inl x \<Rightarrow> (Inl x, s1)
                 | Inr f \<Rightarrow>
                     (Inr (result @ [(''audio'', PStr (b64encode e f))]),
                      snd (os_remove e output_path s1)))))"

text \<open>The body of the outer \<^verbatim>\<open>try\<close>, with the value of \<^verbatim>\<open>temp_audio_file\<close>
  at its end.\<close>

definition handler_body :: "env \<Rightarrow> globals \<Rightarrow> pyval \<Rightarrow> string \<Rightarrow> params \<Rightarrow> state \<Rightarrow> (exn + response) \<times> string option \<times> state" where
  "handler_body e g job_input job_id p s =
     (case resolve_audio_prompt e job_input job_id s of
        (Raise x, tmp, s1) \<Rightarrow> (Inl x, tmp, s1)
      | (Return r, tmp, s1) \<Rightarrow> (Inr r, tmp, s1)
      | (Next audio_prompt_path, tmp, s1) \<Rightarrow>
          (case generate_speech e g p audio_prompt_path s1 of
             (Raise x, s2) \<Rightarrow> (Inl x, tmp, s2)
           | (Return r, s2) \<Rightarrow> (Inr r, tmp, s2)
           | (Next w, s2) \<Rightarrow>
               (case save_audio e g job_id p w s2 of
                  (Raise x, s3) \<Rightarrow> (Inl x, tmp, s3)
                | (Return r, s3) \<Rightarrow> (Inr r, tmp, s3)
                | (Next output_path, s3) \<Rightarrow>
                    (case publish e g job_id p w output_path s3 of
                       (r, s4) \<Rightarrow> (r, tmp, s4)))))"

text \<open>The \<^verbatim>\<open>finally\<close> block, lines 307 to 313.\<close>

definition cleanup :: "env \<Rightarrow> string option \<Rightarrow> state \<Rightarrow> state" where
  "cleanup e temp_audio_file s =
     (case temp_audio_file of
        None \<Rightarrow> s
      | Some path \<Rightarrow>
          if path \<noteq> [] \<and> os_path_exists s path then snd (os_remove e path s) else s)"

text \<open>The handler: \<open>Inl\<close> is an exception that leaves it, \<open>Inr\<close> the dictionary it
  returns.\<close>

definition job_input_of :: "(string \<times> pyval) list \<Rightarrow> pyval" where
  "job_input_of job = dict_get job ''input'' (PDict [])"

text \<open>The job identifier as the f-strings of the handler print it.\<close>

definition job_id_of :: "env \<Rightarrow> (string \<times> pyval) list \<Rightarrow> string" where
  "job_id_of e job = format_str e (dict_get job ''id'' (PStr (uuid4 e)))"

definition handler :: "env \<Rightarrow> globals \<Rightarrow> (string \<times> pyval) list \<Rightarrow> state \<Rightarrow> (exn + response) \<times> state" where
  "handler e g job s =
     (let job_input = job_input_of job;
          job_id = job_id_of e job
      in if MODEL g = None then (Inr (error_response ''Model failed to load at startup''), s)
         else
           (case extract_parameters e job_input of
              Raise x \<Rightarrow> (Inl x, s)
            | Return r \<Rightarrow> (Inr r, s)
            | Next p \<Rightarrow>
                (case handler_body e g job_input job_id p s of
                   (r, tmp, s1) \<Rightarrow> (r, cleanup e tmp s1))))"

section \<open>A concrete world\<close>

text \<open>A state with the given files and no call recorded yet.\<close>

definition fresh :: "(string \<Rightarrow> bytes option) \<Rightarrow> state" where
  "fresh fs = \<lparr>files = fs, trace = []\<rparr>"

text \<open>A world used to run the handler on concrete jobs: the remote store is configured
  but refuses every upload, every download is refused, everything else succeeds.\<close>

definition demo_env :: env where
  "demo_env =
     \<lparr>cuda_is_available = True,
      getenv = (\<lambda>k. if k \<in> set [''R2_ENDPOINT'', ''R2_ACCESS_KEY_ID'', ''R2_SECRET_ACCESS_KEY'']
                    then Some ''x'' else None),
      makedirs = (\<lambda>p. None),
      boto3_client = (\<lambda>ep k sk. None),
      from_pretrained = Inr (ChatterboxTTS 24000),
      uuid4 = ''0f8fad5b-d9cb-469f-a165-70867728950e'',
      str_builtin = (\<lambda>v. ''None''),
      float_of_str = (\<lambda>s. if s = ''0.7'' then Some 0.7 else None),
      requests_get = (\<lambda>u. Inl (LibraryError ''Connection refused'')),
      b64decode = (\<lambda>s. Inr [82, 73, 70, 70]),
      b64encode = (\<lambda>b. ''UklGRg==''),
      open_wb = (\<lambda>p. None),
      remove_error = (\<lambda>p. None),
      generate = (\<lambda>fs t pr ex cfg. Inr \<lparr>shape = [1, 48000], samples = []\<rparr>),
      ta_save = (\<lambda>p w r. Inr [82, 73, 70, 70]),
      ffmpeg = (\<lambda>b d. Inr [73, 68, 51]),
      put_object = (\<lambda>b k f c. Some (LibraryError ''Could not connect to the endpoint URL''))\<rparr>"

definition demo_globals :: globals where
  "demo_globals =
     \<lparr>r2_client = True, R2_BUCKET = ''cdn'', CDN_URL = ''https://cdn.example.com'',
      DEVICE = ''cuda'', MODEL = Some (ChatterboxTTS 24000), SAMPLE_RATE = 24000\<rparr>"

section \<open>Facts about the builtins\<close>

lemma strip_Nil_iff: "strip t = [] \<longleftrightarrow> list_all is_space t"
proof
  assume "strip t = []"
  then have all: "\<forall>x\<in>set (dropWhile is_space t). is_space x"
    by (simp add: strip_def)
  have "dropWhile is_space t = []"
  proof (rule ccontr)
    assume ne: "dropWhile is_space t \<noteq> []"
    then have "\<not> is_space (hd (dropWhile is_space t))"
      by (rule hd_dropWhile)
    with all ne show False
      by (meson hd_in_set)
  qed
  then show "list_all is_space t"
    by (simp add: list_all_iff)
next
  assume "list_all is_space t"
  then have "dropWhile is_space t = []"
    by (simp add: list_all_iff)
  then show "strip t = []"
    by (simp add: strip_def del: dropWhile_eq_Nil_conv)
qed

section \<open>A model that failed to load\<close>

text \<open>
  C7. When the directories can be made and the accelerator is there, a failure to load
  the model does not stop the module from starting: the globals exist with no model, and
  from then on the handler answers every job, whatever its input, with the error
  response "Model failed to load at startup" and leaves the state as it was: nothing is
  validated, resolved or synthesised.
\<close>

theorem model_load_failure_fails_every_job:
  assumes "makedirs e INPUT_DIR = None" and "makedirs e OUTPUT_DIR = None"
    and "cuda_is_available e" and "from_pretrained e = Inl x"
  shows "\<exists>g. startup e = Inr g \<and> MODEL g = None \<and>
           (\<forall>job s. handler e g job s =
              (Inr (error_response ''Model failed to load at startup''), s))"
  using assms by (simp add: startup_def check_gpu_def handler_def Let_def)

theorem model_load_failure_fails_every_job_witness:
  "makedirs (demo_env\<lparr>from_pretrained := Inl (LibraryError ''no weights'')\<rparr>) INPUT_DIR = None
   \<and> makedirs (demo_env\<lparr>from_pretrained := Inl (LibraryError ''no weights'')\<rparr>) OUTPUT_DIR = None
   \<and> cuda_is_available (demo_env\<lparr>from_pretrained := Inl (LibraryError ''no weights'')\<rparr>)
   \<and> from_pretrained (demo_env\<lparr>from_pretrained := Inl (LibraryError ''no weights'')\<rparr>)
       = Inl (LibraryError ''no weights'')
   \<and> (\<exists>g. startup (demo_env\<lparr>from_pretrained := Inl (LibraryError ''no weights'')\<rparr>) = Inr g
          \<and> MODEL g = None
          \<and> (\<forall>job s. handler (demo_env\<lparr>from_pretrained := Inl (LibraryError ''no weights'')\<rparr>) g job s =
                (Inr (error_response ''Model failed to load at startup''), s)))"
proof -
  let ?e = "demo_env\<lparr>from_pretrained := Inl (LibraryError ''no weights'')\<rparr>"
  have h1: "makedirs ?e INPUT_DIR = None" and h2: "makedirs ?e OUTPUT_DIR = None"
    and h3: "cuda_is_available ?e"
    and h4: "from_pretrained ?e = Inl (LibraryError ''no weights'')"
    by (simp_all add: demo_env_def)
  from model_load_failure_fails_every_job [OF h1 h2 h3 h4] h1 h2 h3 h4
  show ?thesis by blast
qed

section \<open>A job without text\<close>

text \<open>
  C4. When the input of the job is a dictionary whose text is absent, empty or made of
  whitespace only, the handler returns a response that is exactly an error, and the
  state it leaves is the state it found: no file is created, and no download, no
  decoding, no synthesis and no upload is recorded.
\<close>

theorem empty_text_is_an_error_without_effects:
  assumes "job_input_of job = PDict d"
    and "map_of d ''text'' = None \<or> (\<exists>t. map_of d ''text'' = Some (PStr t) \<and> list_all is_space t)"
  shows "\<exists>msg. handler e g job s = (Inr (error_response msg), s)"
  using assms
  by (auto simp: handler_def Let_def extract_parameters_def dict_get_def strip_Nil_iff)

theorem empty_text_is_an_error_without_effects_witness:
  "job_input_of [(''id'', PStr ''j1''), (''input'', PDict [(''text'', PStr ''  ''), (''audio_prompt'', PStr ''http://a/b.wav'')])]
     = PDict [(''text'', PStr ''  ''), (''audio_prompt'', PStr ''http://a/b.wav'')]
   \<and> list_all is_space ''  ''
   \<and> (\<exists>msg. handler demo_env demo_globals
         [(''id'', PStr ''j1''), (''input'', PDict [(''text'', PStr ''  ''), (''audio_prompt'', PStr ''http://a/b.wav'')])]
         (fresh Map.empty) = (Inr (error_response msg), fresh Map.empty))"
proof -
  let ?d = "[(''text'', PStr ''  ''), (''audio_prompt'', PStr ''http://a/b.wav'')]"
  let ?job = "[(''id'', PStr ''j1''), (''input'', PDict ?d)]"
  have h1: "job_input_of ?job = PDict ?d"
    by (simp add: job_input_of_def dict_get_def)
  have sp: "list_all is_space ''  ''"
    by (simp add: is_space_def)
  have h2: "map_of ?d ''text'' = None \<or> (\<exists>t. map_of ?d ''text'' = Some (PStr t) \<and> list_all is_space t)"
    using sp by simp
  from empty_text_is_an_error_without_effects [OF h1 h2, of demo_env demo_globals "fresh Map.empty"] h1 sp
  show ?thesis by blast
qed

end
